theory Spec2Isabelle
  imports
    Complex_Main
    "HOL-Library.Char_ord"
    "HOL-Library.List_Lexorder"
    "HOL-Library.Multiset"
begin

section \<open>The markdown post loader (post-api.ts) and the tag route loader\<close>

text \<open>
  JavaScript strings are modelled as \<^typ>\<open>string\<close>, one \<^typ>\<open>char\<close> per code unit
  (code units below 256).  The relational operators of JavaScript on two strings compare
  code units lexicographically, a proper prefix being smaller: this is the order that
  \<open>HOL-Library.List_Lexorder\<close> over \<open>HOL-Library.Char_ord\<close> puts on \<^typ>\<open>string\<close>.
\<close>

subsection \<open>Data model\<close>

text \<open>
  A JavaScript number: NaN, the two infinities, or a finite value, given by the rational
  it denotes (the two zeros are the same for \<open><\<close>).
\<close>

datatype js_number = NaN | NegInfinity | Finite rat | PosInfinity

text \<open>
  The values a scalar of the metadata block can have once the YAML loader has run.  The
  declared type of \<open>postDate\<close> is \<open>string\<close>, but nothing checks it at run time (only the
  title is tested), and the loader turns an unquoted timestamp such as
  \<open>postDate: 2019-01-28\<close> into a \<open>Date\<close> object: \<open>JDate t\<close> is the Date whose time value
  is \<open>t\<close> milliseconds.  \<open>JUndefined\<close> is an absent key.  YAML sequences and mappings are
  not modelled.
\<close>

datatype js_value =
    JUndefined
  | JNull
  | JBoolean bool
  | JNumber js_number
  | JString string
  | JDate js_number

text \<open>
  \<open>PostMarkdownAttributes\<close>: what \<open>parseFrontMatter\<close> hands back for the metadata block.
  \<open>postDate\<close> is whatever value the loader produced, since the code compares it with
  \<open><\<close> and \<open>>\<close>, which are defined on every value.  The other fields carry the declared
  TypeScript types; a key is optional exactly where the code itself tests for its
  absence: \<open>title\<close> (\<open>attributes?.title\<close>), \<open>tags\<close> (\<open>attributes.tags ?? ''\<close>) and
  \<open>draft\<close> (declared \<open>draft?: boolean\<close>).
\<close>

record PostMarkdownAttributes =
  attr_title :: "string option"
  attr_author :: string
  attr_postDate :: js_value
  attr_tags :: "string option"
  attr_draft :: "bool option"

record Post =
  title :: string
  author :: string
  postDate :: js_value
  draft :: "bool option"
  tags :: "string list"
  slug :: string
  permalink :: string
  excerpt_field :: string
  readingTime :: string
  relativeDate :: string

record LoaderData =
  tag :: string
  posts :: "Post list"

text \<open>
  Every way in which \<open>readPost\<close>, \<open>getPosts\<close> and the route \<open>loader\<close> can reject:
  a rejected \<open>fs\<close> promise, an exception of the front-matter parser, a failed
  \<open>invariant(cond, message)\<close> (with its message), an exception of \<open>vagueTime.get\<close>.
\<close>

datatype error =
    IOError
  | FrontMatterError
  | InvariantFailed string
  | InvalidTime

text \<open>
  The file system and the imported libraries are not part of the repository; they are the
  parameters of the model.  \<open>fs_readFile\<close> is \<open>fs.readFile(path.join(postsPath, f))\<close>
  followed by \<open>toString()\<close>; \<open>cheerio_first_p\<close> is \<open>$.html($('p').first())\<close> on
  the document loaded from the given HTML; \<open>readingTime_text\<close> is \<open>readingTime(body).text\<close>;
  \<open>vagueTime_get\<close> is \<open>vagueTime.get({ to: postDate })\<close>.  \<open>None\<close> stands for a
  rejected promise or a thrown exception.  \<open>string_to_number\<close> is the conversion of a
  string to a number that ECMAScript applies when \<open><\<close> compares a string with a value
  that is not a string (NaN when the string is not a numeric literal).
\<close>

record env =
  fs_readdir :: "string list option"
  fs_readFile :: "string \<Rightarrow> string option"
  parseFrontMatter :: "string \<Rightarrow> (PostMarkdownAttributes \<times> string) option"
  marked :: "string \<Rightarrow> string"
  cheerio_first_p :: "string \<Rightarrow> string"
  readingTime_text :: "string \<Rightarrow> string"
  vagueTime_get :: "js_value \<Rightarrow> string option"
  string_to_number :: "string \<Rightarrow> js_number"

subsection \<open>String primitives of JavaScript used by the code\<close>

text \<open>\<open>s.split(c)\<close> for a one-character separator: never an empty array.\<close>

fun split_on :: "char \<Rightarrow> string \<Rightarrow> string list" where
  "split_on c [] = [[]]"
| "split_on c (x # xs) =
     (if x = c then [] # split_on c xs
      else (case split_on c xs of
              [] \<Rightarrow> [[x]]
            | t # ts \<Rightarrow> (x # t) # ts))"

text \<open>White space of \<open>String.prototype.trim\<close> among the code units below 256:
  TAB, LF, VT, FF, CR, SPACE and NBSP.\<close>

definition is_js_space :: "char \<Rightarrow> bool" where
  "is_js_space c = ((of_char c :: nat) \<in> set [9, 10, 11, 12, 13, 32, 160])"

definition trim :: "string \<Rightarrow> string" where
  "trim s = rev (dropWhile is_js_space (rev (dropWhile is_js_space s)))"

text \<open>\<open>s.replace(/^pre/, '')\<close> and \<open>s.replace(/suf$/, '')\<close> for literal \<open>pre\<close>, \<open>suf\<close>.\<close>

definition strip_prefix :: "string \<Rightarrow> string \<Rightarrow> string" where
  "strip_prefix pre s = (if take (length pre) s = pre then drop (length pre) s else s)"

definition strip_suffix :: "string \<Rightarrow> string \<Rightarrow> string" where
  "strip_suffix suf s =
     (if length suf \<le> length s \<and> drop (length s - length suf) s = suf
      then take (length s - length suf) s else s)"

text \<open>
  \<open>x < y\<close> of ECMAScript.  Two strings are compared by code units.  In every other case
  both sides become numbers (a Date through \<open>valueOf\<close>, its time value) and the result
  is false as soon as one of them is NaN.  \<open>x > y\<close> is \<open>y < x\<close>.
\<close>

fun number_less :: "js_number \<Rightarrow> js_number \<Rightarrow> bool" where
  "number_less NaN y = False"
| "number_less x NaN = False"
| "number_less PosInfinity y = False"
| "number_less x NegInfinity = False"
| "number_less NegInfinity y = True"
| "number_less x PosInfinity = True"
| "number_less (Finite a) (Finite b) = (a < b)"

fun to_number :: "(string \<Rightarrow> js_number) \<Rightarrow> js_value \<Rightarrow> js_number" where
  "to_number sn JUndefined = NaN"
| "to_number sn JNull = Finite 0"
| "to_number sn (JBoolean b) = Finite (if b then 1 else 0)"
| "to_number sn (JNumber n) = n"
| "to_number sn (JString s) = sn s"
| "to_number sn (JDate t) = t"

fun js_less :: "(string \<Rightarrow> js_number) \<Rightarrow> js_value \<Rightarrow> js_value \<Rightarrow> bool" where
  "js_less sn (JString a) (JString b) = (a < b)"
| "js_less sn x y = number_less (to_number sn x) (to_number sn y)"

text \<open>
  \<open>Array.prototype.sort(comparefn)\<close>: the engine's algorithm is not in the repository.
  ECMAScript fixes the result for a consistent comparator up to the order of elements the
  comparator calls equal, and since ES2019 requires the sort to be stable; the model is the
  stable insertion sort, an element going in front of the first one it does not compare
  greater than.
\<close>

fun insert_by :: "('a \<Rightarrow> 'a \<Rightarrow> int) \<Rightarrow> 'a \<Rightarrow> 'a list \<Rightarrow> 'a list" where
  "insert_by cmp x [] = [x]"
| "insert_by cmp x (y # ys) =
     (if cmp x y \<le> 0 then x # y # ys else y # insert_by cmp x ys)"

fun sort_by :: "('a \<Rightarrow> 'a \<Rightarrow> int) \<Rightarrow> 'a list \<Rightarrow> 'a list" where
  "sort_by cmp [] = []"
| "sort_by cmp (x # xs) = insert_by cmp x (sort_by cmp xs)"

text \<open>
  \<open>Promise.all\<close> over the mapped reads: the results in the order of the inputs when all
  succeed, a rejection as soon as one read rejects.  Which of several rejections wins
  depends on the completion order; the model reports the first in list order, and the
  theorems below only use that the batch is rejected.
\<close>

fun promise_all :: "(error + 'a) list \<Rightarrow> error + 'a list" where
  "promise_all [] = Inr []"
| "promise_all (r # rs) =
     (case r of
        Inl e \<Rightarrow> Inl e
      | Inr v \<Rightarrow> (case promise_all rs of Inl e \<Rightarrow> Inl e | Inr vs \<Rightarrow> Inr (v # vs)))"

subsection \<open>post-api.ts\<close>

text \<open>\<open>return attributes?.title\<close>, read as a condition: the title is there and is not
  the empty string.\<close>

definition isValidPostAttributes :: "PostMarkdownAttributes \<Rightarrow> bool" where
  "isValidPostAttributes attributes =
     (case attr_title attributes of None \<Rightarrow> False | Some t \<Rightarrow> t \<noteq> [])"

definition excerpt :: "env \<Rightarrow> string \<Rightarrow> string" where
  "excerpt E html =
     strip_suffix ''</p>'' (strip_prefix ''<p>'' (trim (cheerio_first_p E html)))"

definition readPost :: "env \<Rightarrow> string \<Rightarrow> error + Post" where
  "readPost E filename =
     (case fs_readFile E filename of
        None \<Rightarrow> Inl IOError
      | Some fileContents \<Rightarrow>
          (case parseFrontMatter E fileContents of
             None \<Rightarrow> Inl FrontMatterError
           | Some (attributes, body) \<Rightarrow>
               if \<not> isValidPostAttributes attributes
               then Inl (InvariantFailed (filename @ '' has bad meta data!''))
               else
                 (let slug' = strip_suffix ''.md'' filename;
                      html = marked E body
                  in case vagueTime_get E (attr_postDate attributes) of
                       None \<Rightarrow> Inl InvalidTime
                     | Some rel \<Rightarrow>
                         Inr \<lparr> title = the (attr_title attributes),
                               author = attr_author attributes,
                               postDate = attr_postDate attributes,
                               draft = attr_draft attributes,
                               tags = split_on (CHR '','')
                                        (case attr_tags attributes of None \<Rightarrow> [] | Some s \<Rightarrow> s),
                               slug = slug',
                               permalink = ''/post/'' @ slug',
                               excerpt_field = excerpt E html,
                               readingTime = readingTime_text E body,
                               relativeDate = rel \<rparr>)))"

text \<open>\<open>!p.draft\<close>: an absent flag is falsy.\<close>

definition not_draft :: "Post \<Rightarrow> bool" where
  "not_draft p = (draft p \<noteq> Some True)"

text \<open>The comparator handed to \<open>sort\<close>; the environment gives it the conversion that
  \<open><\<close> and \<open>>\<close> use.\<close>

definition comparePosts :: "env \<Rightarrow> Post \<Rightarrow> Post \<Rightarrow> int" where
  "comparePosts E a b =
     (if js_less (string_to_number E) (postDate a) (postDate b) then 1
      else if js_less (string_to_number E) (postDate b) (postDate a) then - 1
      else 0)"

definition getPosts :: "env \<Rightarrow> error + Post list" where
  "getPosts E =
     (case fs_readdir E of
        None \<Rightarrow> Inl IOError
      | Some dir \<Rightarrow>
          (case promise_all (map (readPost E) dir) of
             Inl e \<Rightarrow> Inl e
           | Inr ps \<Rightarrow> Inr (sort_by (comparePosts E) (filter not_draft ps))))"

subsection \<open>The tag route\<close>

text \<open>\<open>params.tag\<close> is a string or undefined; the posts are loaded before the
  invariant on the tag is checked.\<close>

definition loader :: "env \<Rightarrow> string option \<Rightarrow> error + LoaderData" where
  "loader E tag_param =
     (case getPosts E of
        Inl e \<Rightarrow> Inl e
      | Inr ps \<Rightarrow>
          (case tag_param of
             None \<Rightarrow> Inl (InvariantFailed ''No tag provided'')
           | Some t \<Rightarrow> Inr \<lparr> tag = t, posts = filter (\<lambda>p. t \<in> set (tags p)) ps \<rparr>))"

subsection \<open>The tags of the specification\<close>

text \<open>The wording "split on commas with each resulting token trimmed", to be compared
  with what \<open>readPost\<close> computes.\<close>

definition spec_trimmed_tags :: "string \<Rightarrow> string list" where
  "spec_trimmed_tags raw = map trim (split_on (CHR '','') raw)"

subsection \<open>Notions used to state the properties\<close>

text \<open>The attributes of a directory entry: the file read and its metadata block parsed.\<close>

definition file_attributes :: "env \<Rightarrow> string \<Rightarrow> PostMarkdownAttributes option" where
  "file_attributes E filename =
     (case fs_readFile E filename of
        None \<Rightarrow> None
      | Some fileContents \<Rightarrow> map_option fst (parseFrontMatter E fileContents))"

text \<open>A \<open>postDate\<close> that is a string; one that is a Date with a time value.\<close>

definition is_date_string :: "js_value \<Rightarrow> bool" where
  "is_date_string v = (case v of JString s \<Rightarrow> True | _ \<Rightarrow> False)"

definition is_date_object :: "js_value \<Rightarrow> bool" where
  "is_date_object v = (case v of JDate (Finite t) \<Rightarrow> True | _ \<Rightarrow> False)"

text \<open>The dates of a list of posts are of one kind: all strings, or all Dates.\<close>

definition dates_of_one_kind :: "Post list \<Rightarrow> bool" where
  "dates_of_one_kind ps =
     (list_all (\<lambda>p. is_date_string (postDate p)) ps \<or>
      list_all (\<lambda>p. is_date_object (postDate p)) ps)"

subsection \<open>A posts directory to run the model on\<close>

definition demo_attrs :: "string option \<Rightarrow> string \<Rightarrow> string option \<Rightarrow> bool option
    \<Rightarrow> PostMarkdownAttributes" where
  "demo_attrs t d tg dr =
     \<lparr> attr_title = t, attr_author = ''Matt'', attr_postDate = JString d, attr_tags = tg,
       attr_draft = dr \<rparr>"

text \<open>Two posts whose \<open>postDate\<close> is an unquoted timestamp, hence a Date:
  2019-01-28 and 2020-02-01, midnight UTC.\<close>

definition demo_reduce :: PostMarkdownAttributes where
  "demo_reduce =
     \<lparr> attr_title = Some ''Reduce'', attr_author = ''Matt'',
       attr_postDate = JDate (Finite 1548633600000), attr_tags = Some ''js'',
       attr_draft = None \<rparr>"

definition demo_hooks :: PostMarkdownAttributes where
  "demo_hooks =
     \<lparr> attr_title = Some ''Hooks'', attr_author = ''Matt'',
       attr_postDate = JDate (Finite 1580515200000), attr_tags = Some ''js'',
       attr_draft = None \<rparr>"

text \<open>File contents are abbreviated to the file's name; the parser is a table.  None of
  the strings of this directory is a numeric literal, so each converts to NaN.\<close>

definition demo_parse :: "string \<Rightarrow> (PostMarkdownAttributes \<times> string) option" where
  "demo_parse c =
     (if c = ''old.md'' then
        Some (demo_attrs (Some ''Old'') ''2018-10-29'' (Some ''a,b,c'') None, ''old body'')
      else if c = ''new.md'' then
        Some (demo_attrs (Some ''New'') ''2021-03-01'' (Some ''js, remix'') (Some False), ''new body'')
      else if c = ''wip.md'' then
        Some (demo_attrs (Some ''Wip'') ''2022-01-01'' None (Some True), ''wip body'')
      else if c = ''untitled.md'' then
        Some (demo_attrs None ''2022-02-02'' (Some ''a'') (Some True), ''no title'')
      else if c = ''blank.md'' then
        Some (demo_attrs (Some []) ''2022-02-03'' (Some ''a'') None, ''blank title'')
      else if c = ''hello.md'' then
        Some (demo_attrs (Some ''Hello'') ''2020-05-05'' (Some ''a,b,c'') None,
              ''Hello <b>world</b>'')
      else if c = ''offset.md'' then
        Some (demo_attrs (Some ''Offset'') ''2018-10-29'' (Some ''js'') None, ''offset body'')
      else if c = ''reduce.md'' then Some (demo_reduce, ''reduce body'')
      else if c = ''hooks.md'' then Some (demo_hooks, ''hooks body'')
      else None)"

definition demo_env :: "string list \<Rightarrow> env" where
  "demo_env dir =
     \<lparr> fs_readdir = Some dir,
       fs_readFile = (\<lambda>f. if f \<in> set dir then Some f else None),
       parseFrontMatter = demo_parse,
       marked = (\<lambda>b. ''<p>'' @ b @ ''</p>''),
       cheerio_first_p = (\<lambda>h. h),
       readingTime_text = (\<lambda>b. ''1 min read''),
       vagueTime_get = (\<lambda>d. Some ''3 years ago''),
       string_to_number = (\<lambda>s. NaN) \<rparr>"

definition demo_sorted :: "Post list" where
  "demo_sorted =
     [\<lparr> title = ''New'', author = ''Matt'', postDate = JString ''2021-03-01'',
         draft = Some False,
         tags = [''js'', '' remix''], slug = ''new'', permalink = ''/post/new'',
         excerpt_field = ''new body'', readingTime = ''1 min read'',
         relativeDate = ''3 years ago'' \<rparr>,
      \<lparr> title = ''Old'', author = ''Matt'', postDate = JString ''2018-10-29'',
         draft = None,
         tags = [''a'', ''b'', ''c''], slug = ''old'', permalink = ''/post/old'',
         excerpt_field = ''old body'', readingTime = ''1 min read'',
         relativeDate = ''3 years ago'' \<rparr>]"

section \<open>Properties\<close>

lemmas demo_defs =
  demo_env_def demo_parse_def demo_attrs_def demo_reduce_def demo_hooks_def demo_sorted_def
  file_attributes_def is_date_string_def is_date_object_def dates_of_one_kind_def
  getPosts_def readPost_def loader_def excerpt_def isValidPostAttributes_def
  not_draft_def comparePosts_def strip_prefix_def strip_suffix_def trim_def
  is_js_space_def spec_trimmed_tags_def Let_def

subsection \<open>Splitting\<close>

lemma split_on_not_Nil: "split_on c s \<noteq> []"
  by (induction s) (auto split: list.splits)

subsection \<open>The sort\<close>

lemma mset_insert_by: "mset (insert_by cmp x ys) = add_mset x (mset ys)"
  by (induction ys) auto

lemma mset_sort_by: "mset (sort_by cmp xs) = mset xs"
  by (induction xs) (auto simp: mset_insert_by)

lemma set_insert_by: "set (insert_by cmp x ys) = insert x (set ys)"
  using mset_insert_by [of cmp x ys, THEN arg_cong, of set_mset] by simp

lemma set_sort_by: "set (sort_by cmp xs) = set xs"
  using mset_sort_by [of cmp xs, THEN arg_cong, of set_mset] by simp

lemma descending_insert_by:
  fixes k :: "'a \<Rightarrow> 'k::linorder"
  assumes "\<And>p q. p \<in> insert x (set ys) \<Longrightarrow> q \<in> insert x (set ys) \<Longrightarrow>
             (cmp p q \<le> 0) = (k q \<le> k p)"
    and "sorted_wrt (\<lambda>a b. k b \<le> k a) ys"
  shows "sorted_wrt (\<lambda>a b. k b \<le> k a) (insert_by cmp x ys)"
  using assms
proof (induction ys)
  case Nil
  show ?case by simp
next
  case (Cons y ys)
  have cmp_xy: "(cmp x y \<le> 0) = (k y \<le> k x)"
    using Cons.prems(1) [of x y] by simp
  show ?case
  proof (cases "k y \<le> k x")
    case True
    have "k z \<le> k x" if "z \<in> set ys" for z
    proof -
      have "k z \<le> k y" using Cons.prems(2) that by simp
      then show ?thesis using True by (rule order_trans)
    qed
    then show ?thesis using True Cons.prems(2) cmp_xy by simp
  next
    case False
    then have xy: "k x \<le> k y" by simp
    have tail: "sorted_wrt (\<lambda>a b. k b \<le> k a) (insert_by cmp x ys)"
    proof (rule Cons.IH)
      show "(cmp p q \<le> 0) = (k q \<le> k p)"
        if "p \<in> insert x (set ys)" and "q \<in> insert x (set ys)" for p q
        using Cons.prems(1) [of p q] that by auto
      show "sorted_wrt (\<lambda>a b. k b \<le> k a) ys"
        using Cons.prems(2) by simp
    qed
    show ?thesis
      using False xy tail Cons.prems(2) cmp_xy by (auto simp: set_insert_by)
  qed
qed

lemma descending_sort_by:
  fixes k :: "'a \<Rightarrow> 'k::linorder"
  assumes "\<And>p q. p \<in> set xs \<Longrightarrow> q \<in> set xs \<Longrightarrow> (cmp p q \<le> 0) = (k q \<le> k p)"
  shows "sorted_wrt (\<lambda>a b. k b \<le> k a) (sort_by cmp xs)"
  using assms
proof (induction xs)
  case Nil
  show ?case by simp
next
  case (Cons x xs)
  have "sorted_wrt (\<lambda>a b. k b \<le> k a) (sort_by cmp xs)"
    using Cons.prems by (intro Cons.IH) auto
  moreover have "(cmp p q \<le> 0) = (k q \<le> k p)"
    if "p \<in> insert x (set (sort_by cmp xs))" and "q \<in> insert x (set (sort_by cmp xs))"
    for p q
    using Cons.prems [of p q] that by (auto simp: set_sort_by)
  ultimately have "sorted_wrt (\<lambda>a b. k b \<le> k a) (insert_by cmp x (sort_by cmp xs))"
    by (rule descending_insert_by [rotated])
  then show ?case by simp
qed

lemma descending_positions:
  fixes k :: "'a \<Rightarrow> 'k::linorder"
  assumes "sorted_wrt (\<lambda>a b. k b \<le> k a) ps"
    and "i < length ps" and "j < length ps"
    and "k (ps ! i) \<noteq> k (ps ! j)"
  shows "(i < j) = (k (ps ! j) < k (ps ! i))"
proof -
  have ordered: "k (ps ! m) \<le> k (ps ! l)" if "l < m" and "m < length ps" for l m
    using assms(1) that by (simp add: sorted_wrt_iff_nth_less)
  show ?thesis
  proof
    assume "i < j"
    then have "k (ps ! j) \<le> k (ps ! i)"
      using ordered assms(3) by blast
    then show "k (ps ! j) < k (ps ! i)"
      using assms(4) by simp
  next
    assume gt: "k (ps ! j) < k (ps ! i)"
    show "i < j"
    proof (rule ccontr)
      assume "\<not> i < j"
      then have "j < i \<or> j = i" by arith
      then have "k (ps ! i) \<le> k (ps ! j)"
        using ordered assms(2) by auto
      then show False using gt by simp
    qed
  qed
qed

lemma comparePosts_strings:
  assumes "postDate p = JString a" and "postDate q = JString b"
  shows "(comparePosts E p q \<le> 0) = (b \<le> a)"
  using assms by (auto simp: comparePosts_def)

lemma comparePosts_dates:
  assumes "postDate p = JDate (Finite s)" and "postDate q = JDate (Finite t)"
  shows "(comparePosts E p q \<le> 0) = (t \<le> s)"
  using assms by (auto simp: comparePosts_def)

subsection \<open>The batch of reads\<close>

lemma promise_all_map_Inr: "promise_all (map Inr vs) = Inr vs"
  by (induction vs) auto

lemma promise_all_Inr_D: "promise_all rs = Inr vs \<Longrightarrow> rs = map Inr vs"
  by (induction rs arbitrary: vs) (auto split: sum.splits)

lemma promise_all_Inr: "(promise_all rs = Inr vs) = (rs = map Inr vs)"
  using promise_all_map_Inr promise_all_Inr_D by blast

lemma promise_all_rejects: "Inl e \<in> set rs \<Longrightarrow> \<exists>e'. promise_all rs = Inl e'"
proof (cases "promise_all rs")
  case (Inl e')
  then show ?thesis by blast
next
  case (Inr vs)
  assume "Inl e \<in> set rs"
  moreover from Inr have "rs = map Inr vs" by (simp add: promise_all_Inr)
  ultimately show ?thesis by auto
qed

subsection \<open>Inverting \<open>getPosts\<close> and \<open>readPost\<close>\<close>

lemma getPosts_Inr:
  "getPosts E = Inr ps \<Longrightarrow>
   \<exists>dir qs. fs_readdir E = Some dir \<and> map (readPost E) dir = map Inr qs \<and>
     ps = sort_by (comparePosts E) (filter not_draft qs)"
  by (auto simp: getPosts_def promise_all_Inr split: option.splits sum.splits)

lemma getPosts_rejects:
  assumes "fs_readdir E = Some dir" and "filename \<in> set dir"
    and "readPost E filename = Inl e"
  shows "\<exists>e'. getPosts E = Inl e'"
proof -
  have "Inl e \<in> set (map (readPost E) dir)"
    using assms(2,3) by (metis image_eqI list.set_map)
  then obtain e' where "promise_all (map (readPost E) dir) = Inl e'"
    using promise_all_rejects by blast
  then show ?thesis using assms(1) by (simp add: getPosts_def)
qed

lemma readPost_invalid:
  assumes "fs_readFile E filename = Some contents"
    and "parseFrontMatter E contents = Some (attributes, body)"
    and "\<not> isValidPostAttributes attributes"
  shows "readPost E filename = Inl (InvariantFailed (filename @ '' has bad meta data!''))"
  using assms by (simp add: readPost_def)

lemma readPost_Inr:
  assumes "readPost E filename = Inr p"
    and "fs_readFile E filename = Some contents"
    and "parseFrontMatter E contents = Some (attributes, body)"
  shows "isValidPostAttributes attributes"
    and "tags p = split_on (CHR '','') (case attr_tags attributes of None \<Rightarrow> [] | Some s \<Rightarrow> s)"
    and "draft p = attr_draft attributes"
    and "postDate p = attr_postDate attributes"
    and "excerpt_field p = excerpt E (marked E body)"
  using assms by (auto simp: readPost_def Let_def split: if_splits option.splits)



subsection \<open>Claims\<close>

text \<open>
  C1, as stated: of two returned posts with different \<open>postDate\<close> values, the one that
  comes first is the one whose \<open>postDate\<close> is greater.  Nothing makes \<open>postDate\<close> a
  string at run time.  With a quoted date in \<open>offset.md\<close> and an unquoted one, a Date,
  in \<open>reduce.md\<close>, neither value is greater than the other for \<open>>\<close>, the comparator
  answers 0 and the two posts stay in directory order: the post of 2018 comes first
  although its \<open>postDate\<close> is not the greater one.  A Date between two strings separates
  them as well: in the directory \<open>hello.md\<close>, \<open>hooks.md\<close>, \<open>new.md\<close> the string
  \<open>2020-05-05\<close> stays in front of the greater string \<open>2021-03-01\<close>.
\<close>

theorem getPosts_descending_counterexample:
  "length (projr (getPosts (demo_env [''offset.md'', ''reduce.md'']))) = 2
   \<and> postDate (projr (getPosts (demo_env [''offset.md'', ''reduce.md''])) ! 0) =
       JString ''2018-10-29''
   \<and> postDate (projr (getPosts (demo_env [''offset.md'', ''reduce.md''])) ! 1) =
       JDate (Finite 1548633600000)
   \<and> \<not> js_less (string_to_number (demo_env [''offset.md'', ''reduce.md'']))
          (postDate (projr (getPosts (demo_env [''offset.md'', ''reduce.md''])) ! 1))
          (postDate (projr (getPosts (demo_env [''offset.md'', ''reduce.md''])) ! 0))
   \<and> map postDate (projr (getPosts (demo_env [''hello.md'', ''hooks.md'', ''new.md'']))) =
       [JString ''2020-05-05'', JDate (Finite 1580515200000), JString ''2021-03-01'']
   \<and> \<not> ''2021-03-01'' < ''2020-05-05''"
  by (simp add: demo_defs)

text \<open>
  C1, amended: when the \<open>postDate\<close> values of the returned posts are all strings, or are
  all Dates, two returned posts with different \<open>postDate\<close> values are in this order: the
  one at position \<open>i\<close> comes before the one at position \<open>j\<close> if and only if its
  \<open>postDate\<close> is the greater one for \<open>>\<close>, which is the string comparison for two
  strings and the later instant for two Dates.
\<close>

theorem getPosts_descending:
  assumes "getPosts E = Inr ps"
    and "dates_of_one_kind ps"
    and "i < length ps" and "j < length ps"
    and "postDate (ps ! i) \<noteq> postDate (ps ! j)"
  shows "(i < j) = js_less (string_to_number E) (postDate (ps ! j)) (postDate (ps ! i))
         \<and> (\<forall>a b. postDate (ps ! i) = JString a \<and> postDate (ps ! j) = JString b
                \<longrightarrow> (i < j) = (b < a))
         \<and> (\<forall>s t. postDate (ps ! i) = JDate (Finite s) \<and> postDate (ps ! j) = JDate (Finite t)
                \<longrightarrow> (i < j) = (t < s))"
proof -
  obtain qs where ps: "ps = sort_by (comparePosts E) (filter not_draft qs)"
    using getPosts_Inr [OF assms(1)] by blast
  have mem: "ps ! i \<in> set ps" "ps ! j \<in> set ps"
    using assms(3,4) by simp_all
  from assms(2) consider
      (strings) "\<forall>p \<in> set ps. is_date_string (postDate p)"
    | (dates) "\<forall>p \<in> set ps. is_date_object (postDate p)"
    by (auto simp: dates_of_one_kind_def list_all_iff)
  then show ?thesis
  proof cases
    case strings
    define k where "k = (\<lambda>p::Post. case postDate p of JString a \<Rightarrow> a | _ \<Rightarrow> [])"
    have key: "postDate p = JString (k p)" if "p \<in> set ps" for p
      using strings that by (auto simp: k_def is_date_string_def split: js_value.splits)
    have "(comparePosts E p q \<le> 0) = (k q \<le> k p)"
      if "p \<in> set (filter not_draft qs)" and "q \<in> set (filter not_draft qs)" for p q
    proof -
      have "p \<in> set ps" and "q \<in> set ps"
        using that by (simp_all add: ps set_sort_by)
      then show ?thesis
        using comparePosts_strings [OF key key] by blast
    qed
    then have "sorted_wrt (\<lambda>a b. k b \<le> k a) ps"
      unfolding ps by (rule descending_sort_by)
    moreover have "k (ps ! i) \<noteq> k (ps ! j)"
      using assms(5) key [OF mem(1)] key [OF mem(2)] by auto
    ultimately have pos: "(i < j) = (k (ps ! j) < k (ps ! i))"
      using assms(3,4) by (intro descending_positions)
    show ?thesis
      using pos key [OF mem(1)] key [OF mem(2)]
      by (cases "postDate (ps ! i)"; cases "postDate (ps ! j)") auto
  next
    case dates
    define k where "k = (\<lambda>p::Post. case postDate p of JDate (Finite t) \<Rightarrow> t | _ \<Rightarrow> 0)"
    have key: "postDate p = JDate (Finite (k p))" if "p \<in> set ps" for p
      using dates that
      by (auto simp: k_def is_date_object_def split: js_value.splits js_number.splits)
    have "(comparePosts E p q \<le> 0) = (k q \<le> k p)"
      if "p \<in> set (filter not_draft qs)" and "q \<in> set (filter not_draft qs)" for p q
    proof -
      have "p \<in> set ps" and "q \<in> set ps"
        using that by (simp_all add: ps set_sort_by)
      then show ?thesis
        using comparePosts_dates [OF key key] by blast
    qed
    then have "sorted_wrt (\<lambda>a b. k b \<le> k a) ps"
      unfolding ps by (rule descending_sort_by)
    moreover have "k (ps ! i) \<noteq> k (ps ! j)"
      using assms(5) key [OF mem(1)] key [OF mem(2)] by auto
    ultimately have pos: "(i < j) = (k (ps ! j) < k (ps ! i))"
      using assms(3,4) by (intro descending_positions)
    show ?thesis
      using pos key [OF mem(1)] key [OF mem(2)]
      by (cases "postDate (ps ! i)"; cases "postDate (ps ! j)") auto
  qed
qed

theorem getPosts_descending_witness:
  "getPosts (demo_env [''old.md'', ''new.md'', ''wip.md'']) = Inr demo_sorted
   \<and> list_all (\<lambda>p. is_date_string (postDate p)) demo_sorted
   \<and> 0 < length demo_sorted \<and> 1 < length demo_sorted
   \<and> postDate (demo_sorted ! 0) = JString ''2021-03-01''
   \<and> postDate (demo_sorted ! 1) = JString ''2018-10-29''
   \<and> ((0::nat) < 1) = (''2018-10-29'' < ''2021-03-01'')
   \<and> list_all (\<lambda>p. is_date_object (postDate p))
        (projr (getPosts (demo_env [''reduce.md'', ''hooks.md''])))
   \<and> length (projr (getPosts (demo_env [''reduce.md'', ''hooks.md'']))) = 2
   \<and> postDate (projr (getPosts (demo_env [''reduce.md'', ''hooks.md''])) ! 0) =
       JDate (Finite 1580515200000)
   \<and> postDate (projr (getPosts (demo_env [''reduce.md'', ''hooks.md''])) ! 1) =
       JDate (Finite 1548633600000)
   \<and> ((0::nat) < 1) = ((1548633600000::rat) < 1580515200000)"
proof -
  have g: "getPosts (demo_env [''old.md'', ''new.md'', ''wip.md'']) = Inr demo_sorted"
    by (simp add: demo_defs)
  have k: "dates_of_one_kind demo_sorted"
    and ks: "list_all (\<lambda>p. is_date_string (postDate p)) demo_sorted"
    by (simp_all add: demo_defs)
  have l0: "0 < length demo_sorted" and l1: "1 < length demo_sorted"
    and d0: "postDate (demo_sorted ! 0) = JString ''2021-03-01''"
    and d1: "postDate (demo_sorted ! 1) = JString ''2018-10-29''"
    by (simp_all add: demo_sorted_def)
  have d: "postDate (demo_sorted ! 0) \<noteq> postDate (demo_sorted ! 1)"
    unfolding d0 d1 by simp
  have first: "((0::nat) < 1) = (''2018-10-29'' < ''2021-03-01'')"
    using getPosts_descending [OF g k l0 l1 d, THEN conjunct2, THEN conjunct1, rule_format,
        OF conjI [OF d0 d1]] .
  define qs where "qs = projr (getPosts (demo_env [''reduce.md'', ''hooks.md'']))"
  have g': "getPosts (demo_env [''reduce.md'', ''hooks.md'']) = Inr qs"
    by (simp add: qs_def demo_defs)
  have k': "dates_of_one_kind qs"
    and kd: "list_all (\<lambda>p. is_date_object (postDate p)) qs"
    by (simp_all add: qs_def demo_defs)
  have len: "length qs = 2"
    and e0: "postDate (qs ! 0) = JDate (Finite 1580515200000)"
    and e1: "postDate (qs ! 1) = JDate (Finite 1548633600000)"
    by (simp_all add: qs_def demo_defs)
  have m0: "0 < length qs" and m1: "1 < length qs"
    by (simp_all add: len)
  have e: "postDate (qs ! 0) \<noteq> postDate (qs ! 1)"
    unfolding e0 e1 by simp
  have second: "((0::nat) < 1) = ((1548633600000::rat) < 1580515200000)"
    using getPosts_descending [OF g' k' m0 m1 e, THEN conjunct2, THEN conjunct2, rule_format,
        OF conjI [OF e0 e1]] .
  show ?thesis
    using g ks l0 l1 d0 d1 first kd len e0 e1 second
    unfolding qs_def by (intro conjI)
qed

text \<open>
  C2.  No element of the sequence returned by \<open>getPosts\<close> has \<open>draft = true\<close>; so the
  post read from a directory entry whose draft flag is true is not in it.
\<close>

theorem getPosts_no_drafts:
  assumes "getPosts E = Inr ps"
  shows "(\<forall>p \<in> set ps. draft p \<noteq> Some True) \<and>
         (\<forall>q. draft q = Some True \<longrightarrow> q \<notin> set ps)"
proof -
  obtain qs where "ps = sort_by (comparePosts E) (filter not_draft qs)"
    using getPosts_Inr [OF assms] by blast
  then have "set ps = {p \<in> set qs. not_draft p}"
    by (simp add: set_sort_by)
  then show ?thesis by (auto simp: not_draft_def)
qed

theorem getPosts_no_drafts_witness:
  "getPosts (demo_env [''old.md'', ''new.md'', ''wip.md'']) = Inr demo_sorted
   \<and> draft (projr (readPost (demo_env [''old.md'', ''new.md'', ''wip.md'']) ''wip.md'')) = Some True
   \<and> draft (demo_sorted ! 0) \<noteq> Some True
   \<and> draft (demo_sorted ! 1) \<noteq> Some True
   \<and> projr (readPost (demo_env [''old.md'', ''new.md'', ''wip.md'']) ''wip.md'') \<notin> set demo_sorted"
proof -
  have g: "getPosts (demo_env [''old.md'', ''new.md'', ''wip.md'']) = Inr demo_sorted"
    by (simp add: demo_defs)
  have w: "draft (projr (readPost (demo_env [''old.md'', ''new.md'', ''wip.md'']) ''wip.md'')) = Some True"
    by (simp add: demo_defs)
  have m: "demo_sorted ! 0 \<in> set demo_sorted" "demo_sorted ! 1 \<in> set demo_sorted"
    by (simp_all add: demo_sorted_def)
  show ?thesis
    using getPosts_no_drafts [OF g] g w m by blast
qed

text \<open>
  C3.  A file of the posts directory whose metadata has no title, or an empty one: reading
  it stops at the invariant with the message naming the file, and \<open>getPosts\<close> is rejected
  as a whole; there is no result from which the post could be missing.
\<close>

theorem missing_title_is_fatal:
  assumes "fs_readdir E = Some dir" and "filename \<in> set dir"
    and "fs_readFile E filename = Some contents"
    and "parseFrontMatter E contents = Some (attributes, body)"
    and "attr_title attributes = None \<or> attr_title attributes = Some []"
  shows "readPost E filename = Inl (InvariantFailed (filename @ '' has bad meta data!''))
         \<and> (\<exists>e. getPosts E = Inl e)"
proof -
  have "\<not> isValidPostAttributes attributes"
    using assms(5) by (auto simp: isValidPostAttributes_def)
  then have r: "readPost E filename = Inl (InvariantFailed (filename @ '' has bad meta data!''))"
    using assms(3,4) by (rule readPost_invalid [rotated 2])
  then show ?thesis
    using getPosts_rejects [OF assms(1,2)] by blast
qed

theorem missing_title_is_fatal_witness:
  "fs_readdir (demo_env [''old.md'', ''blank.md'']) = Some [''old.md'', ''blank.md'']
   \<and> ''blank.md'' \<in> set [''old.md'', ''blank.md'']
   \<and> fs_readFile (demo_env [''old.md'', ''blank.md'']) ''blank.md'' = Some ''blank.md''
   \<and> parseFrontMatter (demo_env [''old.md'', ''blank.md'']) ''blank.md'' =
       Some (demo_attrs (Some []) ''2022-02-03'' (Some ''a'') None, ''blank title'')
   \<and> attr_title (demo_attrs (Some []) ''2022-02-03'' (Some ''a'') None) = Some []
   \<and> readPost (demo_env [''old.md'', ''blank.md'']) ''blank.md'' =
       Inl (InvariantFailed ''blank.md has bad meta data!'')
   \<and> (\<exists>e. getPosts (demo_env [''old.md'', ''blank.md'']) = Inl e)"
proof -
  have a: "fs_readdir (demo_env [''old.md'', ''blank.md'']) = Some [''old.md'', ''blank.md'']"
    by (simp add: demo_env_def)
  have b: "''blank.md'' \<in> set [''old.md'', ''blank.md'']"
    by simp
  have c: "fs_readFile (demo_env [''old.md'', ''blank.md'']) ''blank.md'' = Some ''blank.md''"
    by (simp add: demo_env_def)
  have d: "parseFrontMatter (demo_env [''old.md'', ''blank.md'']) ''blank.md'' =
       Some (demo_attrs (Some []) ''2022-02-03'' (Some ''a'') None, ''blank title'')"
    by (simp add: demo_env_def demo_parse_def)
  have e: "attr_title (demo_attrs (Some []) ''2022-02-03'' (Some ''a'') None) = None
      \<or> attr_title (demo_attrs (Some []) ''2022-02-03'' (Some ''a'') None) = Some []"
    by (simp add: demo_attrs_def)
  show ?thesis
    using missing_title_is_fatal [OF a b c d e] a b c d by (simp add: demo_attrs_def)
qed

text \<open>
  C10.  The draft filter runs on the posts that were read and validated: a directory
  entry with invalid metadata makes \<open>getPosts\<close> fail although its draft flag is true.
\<close>

theorem draft_does_not_mask_invalid:
  assumes "fs_readdir E = Some dir" and "filename \<in> set dir"
    and "fs_readFile E filename = Some contents"
    and "parseFrontMatter E contents = Some (attributes, body)"
    and "\<not> isValidPostAttributes attributes"
    and "attr_draft attributes = Some True"
  shows "\<exists>e. getPosts E = Inl e"
  using getPosts_rejects [OF assms(1,2) readPost_invalid [OF assms(3,4,5)]] .

theorem draft_does_not_mask_invalid_witness:
  "fs_readdir (demo_env [''old.md'', ''untitled.md'']) = Some [''old.md'', ''untitled.md'']
   \<and> ''untitled.md'' \<in> set [''old.md'', ''untitled.md'']
   \<and> fs_readFile (demo_env [''old.md'', ''untitled.md'']) ''untitled.md'' = Some ''untitled.md''
   \<and> parseFrontMatter (demo_env [''old.md'', ''untitled.md'']) ''untitled.md'' =
       Some (demo_attrs None ''2022-02-02'' (Some ''a'') (Some True), ''no title'')
   \<and> \<not> isValidPostAttributes (demo_attrs None ''2022-02-02'' (Some ''a'') (Some True))
   \<and> attr_draft (demo_attrs None ''2022-02-02'' (Some ''a'') (Some True)) = Some True
   \<and> (\<exists>e. getPosts (demo_env [''old.md'', ''untitled.md'']) = Inl e)"
proof -
  have a: "fs_readdir (demo_env [''old.md'', ''untitled.md'']) = Some [''old.md'', ''untitled.md'']"
    by (simp add: demo_env_def)
  have b: "''untitled.md'' \<in> set [''old.md'', ''untitled.md'']"
    by simp
  have c: "fs_readFile (demo_env [''old.md'', ''untitled.md'']) ''untitled.md'' = Some ''untitled.md''"
    by (simp add: demo_env_def)
  have d: "parseFrontMatter (demo_env [''old.md'', ''untitled.md'']) ''untitled.md'' =
       Some (demo_attrs None ''2022-02-02'' (Some ''a'') (Some True), ''no title'')"
    by (simp add: demo_env_def demo_parse_def)
  have e: "\<not> isValidPostAttributes (demo_attrs None ''2022-02-02'' (Some ''a'') (Some True))"
    by (simp add: demo_attrs_def isValidPostAttributes_def)
  have f: "attr_draft (demo_attrs None ''2022-02-02'' (Some ''a'') (Some True)) = Some True"
    by (simp add: demo_attrs_def)
  show ?thesis
    using draft_does_not_mask_invalid [OF a b c d e f] a b c d e f by simp
qed

text \<open>
  C6.  A file whose metadata has no \<open>tags\<close> key: the \<open>tags\<close> of its Post is the
  one-element sequence holding the empty string.
\<close>

theorem absent_tags_single_empty:
  assumes "readPost E filename = Inr p"
    and "fs_readFile E filename = Some contents"
    and "parseFrontMatter E contents = Some (attributes, body)"
    and "attr_tags attributes = None"
  shows "tags p = [[]]"
  using readPost_Inr(2) [OF assms(1,2,3)] assms(4) by simp

theorem absent_tags_single_empty_witness:
  "fs_readFile (demo_env [''wip.md'']) ''wip.md'' = Some ''wip.md''
   \<and> parseFrontMatter (demo_env [''wip.md'']) ''wip.md'' =
       Some (demo_attrs (Some ''Wip'') ''2022-01-01'' None (Some True), ''wip body'')
   \<and> attr_tags (demo_attrs (Some ''Wip'') ''2022-01-01'' None (Some True)) = None
   \<and> \<not> isl (readPost (demo_env [''wip.md'']) ''wip.md'')
   \<and> tags (projr (readPost (demo_env [''wip.md'']) ''wip.md'')) = [[]]"
proof -
  have r: "readPost (demo_env [''wip.md'']) ''wip.md'' =
      Inr (projr (readPost (demo_env [''wip.md'']) ''wip.md''))"
    by (simp add: demo_defs)
  have c: "fs_readFile (demo_env [''wip.md'']) ''wip.md'' = Some ''wip.md''"
    by (simp add: demo_env_def)
  have d: "parseFrontMatter (demo_env [''wip.md'']) ''wip.md'' =
       Some (demo_attrs (Some ''Wip'') ''2022-01-01'' None (Some True), ''wip body'')"
    by (simp add: demo_env_def demo_parse_def)
  have e: "attr_tags (demo_attrs (Some ''Wip'') ''2022-01-01'' None (Some True)) = None"
    by (simp add: demo_attrs_def)
  have i: "\<not> isl (readPost (demo_env [''wip.md'']) ''wip.md'')"
    by (simp add: demo_defs)
  show ?thesis
    using absent_tags_single_empty [OF r c d e] c d e i by simp
qed

text \<open>
  C9.  Every Post that \<open>readPost\<close> constructs has at least one tag: \<open>split\<close> never
  returns an empty array, not even for the empty string.
\<close>

theorem readPost_tags_nonempty:
  "readPost E filename = Inr p \<Longrightarrow> tags p \<noteq> [] \<and> 1 \<le> length (tags p)"
  by (auto simp: readPost_def Let_def split_on_not_Nil Suc_le_eq
      split: if_splits option.splits)

theorem readPost_tags_nonempty_witness:
  "\<not> isl (readPost (demo_env [''wip.md'']) ''wip.md'')
   \<and> tags (projr (readPost (demo_env [''wip.md'']) ''wip.md'')) \<noteq> []
   \<and> 1 \<le> length (tags (projr (readPost (demo_env [''wip.md'']) ''wip.md'')))"
proof -
  have r: "readPost (demo_env [''wip.md'']) ''wip.md'' =
      Inr (projr (readPost (demo_env [''wip.md'']) ''wip.md''))"
    by (simp add: demo_defs)
  have i: "\<not> isl (readPost (demo_env [''wip.md'']) ''wip.md'')"
    by (simp add: demo_defs)
  show ?thesis
    using readPost_tags_nonempty [OF r] i by simp
qed

text \<open>
  C7.  A post whose rendered body has \<open><p>Hello <b>world</b></p>\<close> as the serialisation
  of its first paragraph: the excerpt of the Post is \<open>Hello <b>world</b>\<close>, the leading
  \<open><p>\<close> and the trailing \<open></p>\<close> taken off the text.
\<close>

theorem excerpt_hello_world:
  assumes "readPost E filename = Inr p"
    and "fs_readFile E filename = Some contents"
    and "parseFrontMatter E contents = Some (attributes, body)"
    and "cheerio_first_p E (marked E body) = ''<p>Hello <b>world</b></p>''"
  shows "excerpt_field p = ''Hello <b>world</b>''"
proof -
  have "excerpt E (marked E body) = ''Hello <b>world</b>''"
    using assms(4)
    by (simp add: excerpt_def trim_def is_js_space_def strip_prefix_def strip_suffix_def)
  then show ?thesis
    using readPost_Inr(5) [OF assms(1,2,3)] by simp
qed

theorem excerpt_hello_world_witness:
  "\<not> isl (readPost (demo_env [''hello.md'']) ''hello.md'')
   \<and> fs_readFile (demo_env [''hello.md'']) ''hello.md'' = Some ''hello.md''
   \<and> parseFrontMatter (demo_env [''hello.md'']) ''hello.md'' =
       Some (demo_attrs (Some ''Hello'') ''2020-05-05'' (Some ''a,b,c'') None,
             ''Hello <b>world</b>'')
   \<and> cheerio_first_p (demo_env [''hello.md''])
         (marked (demo_env [''hello.md'']) ''Hello <b>world</b>'') = ''<p>Hello <b>world</b></p>''
   \<and> excerpt_field (projr (readPost (demo_env [''hello.md'']) ''hello.md'')) =
       ''Hello <b>world</b>''"
proof -
  have r: "readPost (demo_env [''hello.md'']) ''hello.md'' =
      Inr (projr (readPost (demo_env [''hello.md'']) ''hello.md''))"
    by (simp add: demo_defs)
  have i: "\<not> isl (readPost (demo_env [''hello.md'']) ''hello.md'')"
    by (simp add: demo_defs)
  have c: "fs_readFile (demo_env [''hello.md'']) ''hello.md'' = Some ''hello.md''"
    by (simp add: demo_env_def)
  have d: "parseFrontMatter (demo_env [''hello.md'']) ''hello.md'' =
       Some (demo_attrs (Some ''Hello'') ''2020-05-05'' (Some ''a,b,c'') None,
             ''Hello <b>world</b>'')"
    by (simp add: demo_env_def demo_parse_def)
  have e: "cheerio_first_p (demo_env [''hello.md''])
         (marked (demo_env [''hello.md'']) ''Hello <b>world</b>'') = ''<p>Hello <b>world</b></p>''"
    by (simp add: demo_env_def)
  show ?thesis
    using excerpt_hello_world [OF r c d e] i c d e by simp
qed

text \<open>
  C8.  The tag route: of the posts that \<open>getPosts\<close> returns, the loader keeps, in their
  order, exactly those whose tag list has an element equal to the tag of the route; the
  strings are compared as they are.
\<close>

theorem loader_filters_by_exact_tag:
  assumes "getPosts E = Inr ps"
  shows "loader E (Some t) = Inr \<lparr> tag = t, posts = filter (\<lambda>p. t \<in> set (tags p)) ps \<rparr>
         \<and> (\<forall>p \<in> set ps. (p \<in> set (posts (projr (loader E (Some t))))) = (t \<in> set (tags p)))
         \<and> set (posts (projr (loader E (Some t)))) \<subseteq> set ps"
  using assms by (auto simp: loader_def)

theorem loader_filters_by_exact_tag_witness:
  "getPosts (demo_env [''old.md'', ''new.md'', ''wip.md'']) = Inr demo_sorted
   \<and> loader (demo_env [''old.md'', ''new.md'', ''wip.md'']) (Some '' remix'') =
       Inr \<lparr> tag = '' remix'', posts = [demo_sorted ! 0] \<rparr>
   \<and> '' remix'' \<in> set (tags (demo_sorted ! 0))
   \<and> demo_sorted ! 0 \<in> set (posts (projr (loader (demo_env [''old.md'', ''new.md'', ''wip.md''])
                                              (Some '' remix''))))
   \<and> '' remix'' \<notin> set (tags (demo_sorted ! 1))
   \<and> demo_sorted ! 1 \<notin> set (posts (projr (loader (demo_env [''old.md'', ''new.md'', ''wip.md''])
                                              (Some '' remix''))))"
proof -
  have g: "getPosts (demo_env [''old.md'', ''new.md'', ''wip.md'']) = Inr demo_sorted"
    by (simp add: demo_defs)
  have f: "filter (\<lambda>p. '' remix'' \<in> set (tags p)) demo_sorted = [demo_sorted ! 0]"
    by (simp add: demo_sorted_def)
  have t: "'' remix'' \<in> set (tags (demo_sorted ! 0))"
    "'' remix'' \<notin> set (tags (demo_sorted ! 1))"
    by (simp_all add: demo_sorted_def)
  have m: "demo_sorted ! 0 \<in> set demo_sorted" "demo_sorted ! 1 \<in> set demo_sorted"
    by (simp_all add: demo_sorted_def)
  note T = loader_filters_by_exact_tag [OF g, of "'' remix''"]
  have l: "loader (demo_env [''old.md'', ''new.md'', ''wip.md'']) (Some '' remix'') =
       Inr \<lparr> tag = '' remix'', posts = [demo_sorted ! 0] \<rparr>"
    using T f by (simp only:)
  have q: "\<forall>p \<in> set demo_sorted.
        (p \<in> set (posts (projr (loader (demo_env [''old.md'', ''new.md'', ''wip.md''])
                                 (Some '' remix''))))) = ('' remix'' \<in> set (tags p))"
    using T by (rule conjunct2 [THEN conjunct1])
  have q0: "demo_sorted ! 0 \<in> set (posts (projr (loader
       (demo_env [''old.md'', ''new.md'', ''wip.md'']) (Some '' remix''))))"
    using q m(1) t(1) by blast
  have q1: "demo_sorted ! 1 \<notin> set (posts (projr (loader
       (demo_env [''old.md'', ''new.md'', ''wip.md'']) (Some '' remix''))))"
    using q m(2) t(2) by blast
  show ?thesis
    using g l t q0 q1 by (intro conjI)
qed

text \<open>
  C5, as stated: the tags of a Post are the comma-separated tokens of the raw attribute,
  each trimmed.  The code does not trim: for the raw attribute \<open>js, remix\<close> the second
  tag keeps its leading space.
\<close>

theorem tags_trimmed_counterexample:
  "fs_readFile (demo_env [''new.md'']) ''new.md'' = Some ''new.md''
   \<and> map_option (attr_tags \<circ> fst) (parseFrontMatter (demo_env [''new.md'']) ''new.md'') =
       Some (Some ''js, remix'')
   \<and> \<not> isl (readPost (demo_env [''new.md'']) ''new.md'')
   \<and> tags (projr (readPost (demo_env [''new.md'']) ''new.md'')) = [''js'', '' remix'']
   \<and> spec_trimmed_tags ''js, remix'' = [''js'', ''remix'']
   \<and> tags (projr (readPost (demo_env [''new.md'']) ''new.md'')) \<noteq> spec_trimmed_tags ''js, remix''"
  by (simp add: demo_defs)

text \<open>
  C5, amended: the tags of a Post are the raw attribute (the empty string when the key is
  absent) split at each comma, every token kept as it is; for the raw attribute \<open>a,b,c\<close>
  they are \<open>a\<close>, \<open>b\<close>, \<open>c\<close> in that order.
\<close>

theorem tags_split_untrimmed:
  assumes "readPost E filename = Inr p"
    and "fs_readFile E filename = Some contents"
    and "parseFrontMatter E contents = Some (attributes, body)"
  shows "tags p = split_on (CHR '','') (case attr_tags attributes of None \<Rightarrow> [] | Some s \<Rightarrow> s)
         \<and> (attr_tags attributes = Some ''a,b,c'' \<longrightarrow> tags p = [''a'', ''b'', ''c''])"
  using readPost_Inr(2) [OF assms] by simp

theorem tags_split_untrimmed_witness:
  "\<not> isl (readPost (demo_env [''old.md'']) ''old.md'')
   \<and> fs_readFile (demo_env [''old.md'']) ''old.md'' = Some ''old.md''
   \<and> parseFrontMatter (demo_env [''old.md'']) ''old.md'' =
       Some (demo_attrs (Some ''Old'') ''2018-10-29'' (Some ''a,b,c'') None, ''old body'')
   \<and> attr_tags (demo_attrs (Some ''Old'') ''2018-10-29'' (Some ''a,b,c'') None) = Some ''a,b,c''
   \<and> tags (projr (readPost (demo_env [''old.md'']) ''old.md'')) = [''a'', ''b'', ''c'']"
proof -
  have r: "readPost (demo_env [''old.md'']) ''old.md'' =
      Inr (projr (readPost (demo_env [''old.md'']) ''old.md''))"
    by (simp add: demo_defs)
  have i: "\<not> isl (readPost (demo_env [''old.md'']) ''old.md'')"
    by (simp add: demo_defs)
  have c: "fs_readFile (demo_env [''old.md'']) ''old.md'' = Some ''old.md''"
    by (simp add: demo_env_def)
  have d: "parseFrontMatter (demo_env [''old.md'']) ''old.md'' =
       Some (demo_attrs (Some ''Old'') ''2018-10-29'' (Some ''a,b,c'') None, ''old body'')"
    by (simp add: demo_env_def demo_parse_def)
  have e: "attr_tags (demo_attrs (Some ''Old'') ''2018-10-29'' (Some ''a,b,c'') None) = Some ''a,b,c''"
    by (simp add: demo_attrs_def)
  show ?thesis
    using tags_split_untrimmed [OF r c d] i c d e by simp
qed




end
